theory Spec2Isabelle
  imports Complex_Main "HOL-Library.Log_Nat"
begin

section \<open>JavaScript numbers and strings\<close>

text \<open>
  The frontend computes with JavaScript \<^verbatim>\<open>number\<close>s. A number is modelled as the rational it
  denotes, or one of the three non-finite values; the sign of zero is not modelled (a zero
  divisor is read as +0). \<open>binary64\<close> below is the rounding of IEEE-754: \<^verbatim>\<open>Number\<close> rounds the
  value of the literal it reads, so what the form's checks compare is the double the engine
  compares. The operators \<open>js_add\<close>, \<open>js_sub\<close>, \<open>js_mul\<close> and \<open>js_div\<close> give the exact result
  on finite operands; \<open>js_add64\<close>, \<open>js_sub64\<close>, \<open>js_mul64\<close> and \<open>js_div64\<close> round it, as the
  engine does after each operation. Strings are lists of code units, a \<^typ>\<open>char\<close> standing
  for a code unit below 256.
\<close>

datatype jsnum = Num rat | PosInfinity | NegInfinity | NaN

fun isFinite :: "jsnum \<Rightarrow> bool" where
  "isFinite (Num a) = True"
| "isFinite PosInfinity = False"
| "isFinite NegInfinity = False"
| "isFinite NaN = False"

text \<open>The relational operator \<^verbatim>\<open><\<close>; \<^verbatim>\<open>a > b\<close> is \<^verbatim>\<open>b < a\<close>. A comparison with NaN is false.\<close>

fun js_lt :: "jsnum \<Rightarrow> jsnum \<Rightarrow> bool" where
  "js_lt NaN b = False"
| "js_lt a NaN = False"
| "js_lt (Num a) (Num b) = (a < b)"
| "js_lt a NegInfinity = False"
| "js_lt PosInfinity b = False"
| "js_lt NegInfinity b = True"
| "js_lt a PosInfinity = True"

definition js_gt :: "jsnum \<Rightarrow> jsnum \<Rightarrow> bool" where
  "js_gt a b = js_lt b a"

fun js_sign :: "jsnum \<Rightarrow> int" where
  "js_sign (Num a) = (if a < 0 then - 1 else if a = 0 then 0 else 1)"
| "js_sign PosInfinity = 1"
| "js_sign NegInfinity = - 1"
| "js_sign NaN = 0"

definition js_inf :: "int \<Rightarrow> jsnum" where
  "js_inf s = (if s < 0 then NegInfinity else PosInfinity)"

fun js_neg :: "jsnum \<Rightarrow> jsnum" where
  "js_neg (Num a) = Num (- a)"
| "js_neg PosInfinity = NegInfinity"
| "js_neg NegInfinity = PosInfinity"
| "js_neg NaN = NaN"

fun js_add :: "jsnum \<Rightarrow> jsnum \<Rightarrow> jsnum" where
  "js_add NaN b = NaN"
| "js_add a NaN = NaN"
| "js_add (Num a) (Num b) = Num (a + b)"
| "js_add PosInfinity NegInfinity = NaN"
| "js_add NegInfinity PosInfinity = NaN"
| "js_add PosInfinity b = PosInfinity"
| "js_add NegInfinity b = NegInfinity"
| "js_add a PosInfinity = PosInfinity"
| "js_add a NegInfinity = NegInfinity"

definition js_sub :: "jsnum \<Rightarrow> jsnum \<Rightarrow> jsnum" where
  "js_sub a b = js_add a (js_neg b)"

fun js_mul :: "jsnum \<Rightarrow> jsnum \<Rightarrow> jsnum" where
  "js_mul NaN b = NaN"
| "js_mul a NaN = NaN"
| "js_mul (Num a) (Num b) = Num (a * b)"
| "js_mul a b = (if js_sign a * js_sign b = 0 then NaN else js_inf (js_sign a * js_sign b))"

fun js_div :: "jsnum \<Rightarrow> jsnum \<Rightarrow> jsnum" where
  "js_div NaN b = NaN"
| "js_div a NaN = NaN"
| "js_div (Num a) (Num b) =
     (if b \<noteq> 0 then Num (a / b) else if a = 0 then NaN else js_inf (js_sign (Num a)))"
| "js_div (Num a) b = Num 0"
| "js_div a (Num b) = js_inf (js_sign a * (if b < 0 then - 1 else 1))"
| "js_div a b = NaN"




subsection \<open>Rounding to binary64\<close>

text \<open>
  \<open>ilog2 x\<close> is the exponent of a positive rational: the integer \<open>e\<close> with
  \<open>2 ^ e \<le> x < 2 ^ (e + 1)\<close>, found from the bit length of the integer part of \<open>x\<close>, or of
  \<open>1 / x\<close> when \<open>x\<close> is below 1.
\<close>

definition ilog2 :: "rat \<Rightarrow> int" where
  "ilog2 x = (if 1 \<le> x then bitlen \<lfloor>x\<rfloor> - 1 else - bitlen (\<lceil>1 / x\<rceil> - 1))"

definition roundTiesToEven :: "rat \<Rightarrow> int" where
  "roundTiesToEven m =
     (let f = \<lfloor>m\<rfloor>; d = m - of_int f
      in if d < 1 / 2 then f else if 1 / 2 < d then f + 1 else if even f then f else f + 1)"

text \<open>
  The double nearest to a rational, a tie going to the even significand. The doubles around
  \<open>x\<close> are the multiples of \<open>2 ^ (e - 52)\<close>, \<open>e\<close> the exponent of \<open>x\<close> and at least -1022 (below
  that the doubles are subnormal, multiples of \<open>2 ^ (- 1074)\<close>); a result of magnitude
  \<open>2 ^ 1024\<close> is an infinity; a result that rounds to zero is 0.
\<close>

definition binary64 :: "rat \<Rightarrow> jsnum" where
  "binary64 x =
     (if x = 0 then Num 0
      else
        (let q = 2 powi (max (ilog2 \<bar>x\<bar>) (- 1022) - 52);
             y = of_int (roundTiesToEven (x / q)) * q
         in if 2 ^ 1024 \<le> \<bar>y\<bar> then (if x < 0 then NegInfinity else PosInfinity) else Num y))"

fun toBinary64 :: "jsnum \<Rightarrow> jsnum" where
  "toBinary64 (Num r) = binary64 r"
| "toBinary64 a = a"

definition js_add64 :: "jsnum \<Rightarrow> jsnum \<Rightarrow> jsnum" where
  "js_add64 a b = toBinary64 (js_add a b)"

definition js_sub64 :: "jsnum \<Rightarrow> jsnum \<Rightarrow> jsnum" where
  "js_sub64 a b = toBinary64 (js_sub a b)"

definition js_mul64 :: "jsnum \<Rightarrow> jsnum \<Rightarrow> jsnum" where
  "js_mul64 a b = toBinary64 (js_mul a b)"

definition js_div64 :: "jsnum \<Rightarrow> jsnum \<Rightarrow> jsnum" where
  "js_div64 a b = toBinary64 (js_div a b)"

subsection \<open>\<^verbatim>\<open>Number(value)\<close> on a string\<close>

text \<open>
  \<^verbatim>\<open>Number\<close> applied to a string is ECMAScript's StringToNumber: white space and line
  terminators are stripped at both ends, the empty rest is 0, a StrNumericLiteral is its
  mathematical value rounded to binary64, and anything else is NaN.
\<close>

definition isStrWhiteSpaceChar :: "char \<Rightarrow> bool" where
  "isStrWhiteSpaceChar c =
     (c = CHR 0x09 \<or> c = CHR 0x0A \<or> c = CHR 0x0B \<or> c = CHR 0x0C \<or> c = CHR 0x0D
      \<or> c = CHR 0x20 \<or> c = CHR 0xA0)"

definition trimString :: "string \<Rightarrow> string" where
  "trimString s = rev (dropWhile isStrWhiteSpaceChar (rev (dropWhile isStrWhiteSpaceChar s)))"

definition digitValue :: "char \<Rightarrow> nat option" where
  "digitValue c =
     (let n = (of_char c :: nat) in
      if 48 \<le> n \<and> n \<le> 57 then Some (n - 48)
      else if 97 \<le> n \<and> n \<le> 102 then Some (n - 87)
      else if 65 \<le> n \<and> n \<le> 70 then Some (n - 55)
      else None)"

definition isDigitOf :: "nat \<Rightarrow> char \<Rightarrow> bool" where
  "isDigitOf base c = (case digitValue c of None \<Rightarrow> False | Some d \<Rightarrow> d < base)"

definition digitsValue :: "nat \<Rightarrow> string \<Rightarrow> nat" where
  "digitsValue base s = foldl (\<lambda>acc c. base * acc + (case digitValue c of None \<Rightarrow> 0 | Some d \<Rightarrow> d)) 0 s"

text \<open>A non-empty run of digits of the base and nothing else, as its value.\<close>

definition parseDigits :: "nat \<Rightarrow> string \<Rightarrow> nat option" where
  "parseDigits base s =
     (if s \<noteq> [] \<and> list_all (isDigitOf base) s then Some (digitsValue base s) else None)"

definition pow10 :: "int \<Rightarrow> rat" where
  "pow10 e = (if 0 \<le> e then 10 ^ nat e else 1 / 10 ^ nat (- e))"

text \<open>ExponentPart, optional: nothing is the exponent 0.\<close>

definition parseExponentPart :: "string \<Rightarrow> int option" where
  "parseExponentPart s =
     (case s of
        [] \<Rightarrow> Some 0
      | c # r \<Rightarrow>
          if c = CHR ''e'' \<or> c = CHR ''E'' then
            (case r of
               [] \<Rightarrow> None
             | d # r' \<Rightarrow>
                 if d = CHR ''+'' then map_option int (parseDigits 10 r')
                 else if d = CHR ''-'' then map_option (\<lambda>n. - int n) (parseDigits 10 r')
                 else map_option int (parseDigits 10 r))
          else None)"

definition strUnsignedDecimalLiteral :: "string \<Rightarrow> jsnum option" where
  "strUnsignedDecimalLiteral s =
     (if s = ''Infinity'' then Some PosInfinity
      else
        let ip = takeWhile (isDigitOf 10) s; r = dropWhile (isDigitOf 10) s in
        if r \<noteq> [] \<and> hd r = CHR ''.'' then
          let fp = takeWhile (isDigitOf 10) (tl r); r2 = dropWhile (isDigitOf 10) (tl r) in
          if ip = [] \<and> fp = [] then None
          else
            map_option
              (\<lambda>e. Num ((of_nat (digitsValue 10 ip)
                          + of_nat (digitsValue 10 fp) / 10 ^ length fp) * pow10 e))
              (parseExponentPart r2)
        else if ip = [] then None
        else map_option (\<lambda>e. Num (of_nat (digitsValue 10 ip) * pow10 e)) (parseExponentPart r))"

definition strDecimalLiteral :: "string \<Rightarrow> jsnum option" where
  "strDecimalLiteral s =
     (case s of
        [] \<Rightarrow> None
      | c # r \<Rightarrow>
          if c = CHR ''+'' then strUnsignedDecimalLiteral r
          else if c = CHR ''-'' then map_option js_neg (strUnsignedDecimalLiteral r)
          else strUnsignedDecimalLiteral s)"

definition nonDecimalIntegerLiteral :: "string \<Rightarrow> jsnum option" where
  "nonDecimalIntegerLiteral s =
     (case s of
        z # x # ds \<Rightarrow>
          if z \<noteq> CHR ''0'' then None
          else if x = CHR ''b'' \<or> x = CHR ''B'' then map_option (\<lambda>n. Num (of_nat n)) (parseDigits 2 ds)
          else if x = CHR ''o'' \<or> x = CHR ''O'' then map_option (\<lambda>n. Num (of_nat n)) (parseDigits 8 ds)
          else if x = CHR ''x'' \<or> x = CHR ''X'' then map_option (\<lambda>n. Num (of_nat n)) (parseDigits 16 ds)
          else None
      | _ \<Rightarrow> None)"

definition Number :: "string \<Rightarrow> jsnum" where
  "Number s =
     (let t = trimString s in
      if t = [] then Num 0
      else
        toBinary64
          (case nonDecimalIntegerLiteral t of
             Some v \<Rightarrow> v
           | None \<Rightarrow> (case strDecimalLiteral t of Some v \<Rightarrow> v | None \<Rightarrow> NaN)))"

section \<open>The prediction request (api.ts)\<close>

record PredictionPayload =
  magnitude :: jsnum
  depth :: jsnum
  cdi :: jsnum
  mmi :: jsnum
  sig :: jsnum

datatype RiskKey = low | medium | high

record PredictionResponse =
  probability :: jsnum
  risk_category :: RiskKey

text \<open>
  \<^verbatim>\<open>fetch\<close> is the environment's: a function from the request to the outcome of the promise,
  \<open>Inl\<close> the message of the Error it rejects with. The body of a request is
  \<^verbatim>\<open>JSON.stringify(payload)\<close>, kept as the payload it encodes. A response's \<^verbatim>\<open>json()\<close> rejects
  (\<open>Inl\<close>) or yields the parsed body, read as an ApiError (\<open>detail\<close>, \<open>None\<close> when the body is
  null or has none) on the error path and as a PredictionResponse (\<open>data\<close>) otherwise.
\<close>

record HttpRequest =
  url :: string
  method' :: string
  headers :: "(string \<times> string) list"
  body :: PredictionPayload

record ResponseBody =
  detail :: "string option"
  data :: PredictionResponse

record HttpResponse =
  ok :: bool
  status :: nat
  json :: "string + ResponseBody"

type_synonym Fetch = "HttpRequest \<Rightarrow> string + HttpResponse"

definition DEFAULT_BASE_URL :: string where
  "DEFAULT_BASE_URL = ''http://localhost:8000''"

text \<open>The argument is \<^verbatim>\<open>import.meta.env.VITE_API_BASE_URL\<close>, \<open>None\<close> when it is not a string.\<close>

definition getApiBaseUrl :: "string option \<Rightarrow> string" where
  "getApiBaseUrl env =
     (case env of
        Some u \<Rightarrow>
          if length (trimString u) > 0 then
            (if last (trimString u) = CHR ''/'' then butlast (trimString u) else trimString u)
          else DEFAULT_BASE_URL
      | None \<Rightarrow> DEFAULT_BASE_URL)"

fun showNat :: "nat \<Rightarrow> string" where
  "showNat n = (if n < 10 then [char_of (48 + n)] else showNat (n div 10) @ [char_of (48 + n mod 10)])"

definition predictEarthquakeRisk ::
  "string option \<Rightarrow> Fetch \<Rightarrow> PredictionPayload \<Rightarrow> string + PredictionResponse" where
  "predictEarthquakeRisk env fetch payload =
     (case fetch \<lparr>url = getApiBaseUrl env @ ''/predict'', method' = ''POST'',
                   headers = [(''Content-Type'', ''application/json'')], body = payload\<rparr> of
        Inl rejected \<Rightarrow> Inl rejected
      | Inr response \<Rightarrow>
          if \<not> ok response then
            Inl (case json response of
                   Inr errorBody \<Rightarrow>
                     (case detail errorBody of
                        Some d \<Rightarrow>
                          if d \<noteq> [] then d
                          else ''Request failed with status '' @ showNat (status response)
                      | None \<Rightarrow> ''Request failed with status '' @ showNat (status response))
                 | Inl thrown \<Rightarrow> ''Request failed with status '' @ showNat (status response))
          else (case json response of Inl thrown \<Rightarrow> Inl thrown | Inr b \<Rightarrow> Inr (data b)))"

section \<open>The prediction form (Predict.tsx)\<close>

text \<open>
  The keys of the form and the form itself. The fields of the form have the names of the
  payload's fields, as in the source: from here on a bare \<open>sig f\<close> is the string of the form,
  and the number of a payload is written \<open>PredictionPayload.sig p\<close>.
\<close>

datatype FormKey = Magnitude | Depth | Cdi | Mmi | Sig

record FormState =
  magnitude :: string
  depth :: string
  cdi :: string
  mmi :: string
  sig :: string

fun formField :: "FormState \<Rightarrow> FormKey \<Rightarrow> string" where
  "formField f Magnitude = magnitude f"
| "formField f Depth = depth f"
| "formField f Cdi = cdi f"
| "formField f Mmi = mmi f"
| "formField f Sig = sig f"

definition emptyForm :: FormState where
  "emptyForm = \<lparr>magnitude = [], depth = [], cdi = [], mmi = [], sig = []\<rparr>"

definition SIGNIFICANCE_USGS_MIN :: jsnum where
  "SIGNIFICANCE_USGS_MIN = Num 0"

definition SIGNIFICANCE_USGS_MAX :: jsnum where
  "SIGNIFICANCE_USGS_MAX = Num 1000"

definition SIGNIFICANCE_MODEL_MIN :: jsnum where
  "SIGNIFICANCE_MODEL_MIN = Num (- 128)"

definition SIGNIFICANCE_MODEL_MAX :: jsnum where
  "SIGNIFICANCE_MODEL_MAX = Num 127"

definition convertSignificanceToModelScale :: "jsnum \<Rightarrow> jsnum" where
  "convertSignificanceToModelScale value =
     (let normalized =
            js_div (js_sub value SIGNIFICANCE_USGS_MIN)
                   (js_sub SIGNIFICANCE_USGS_MAX SIGNIFICANCE_USGS_MIN)
      in js_add (js_mul normalized (js_sub SIGNIFICANCE_MODEL_MAX SIGNIFICANCE_MODEL_MIN))
                SIGNIFICANCE_MODEL_MIN)"

text \<open>
  The same function as the engine computes it: the four operators of the source expression,
  each followed by the rounding to binary64.
\<close>

definition convertSignificanceToModelScale64 :: "jsnum \<Rightarrow> jsnum" where
  "convertSignificanceToModelScale64 value =
     (let normalized =
            js_div64 (js_sub64 value SIGNIFICANCE_USGS_MIN)
                     (js_sub64 SIGNIFICANCE_USGS_MAX SIGNIFICANCE_USGS_MIN)
      in js_add64 (js_mul64 normalized (js_sub64 SIGNIFICANCE_MODEL_MAX SIGNIFICANCE_MODEL_MIN))
                  SIGNIFICANCE_MODEL_MIN)"

text \<open>
  Modelled from the spec: \<^verbatim>\<open>inverse_normalize\<close>, the inverse affine map
  \<^verbatim>\<open>(x + 128) / 255 * 1000\<close> of the round-trip property. The source has no such function; it
  is written here as a caller of the frontend's conversion would compute it, each operation
  rounded to binary64.
\<close>

definition inverse_normalize :: "jsnum \<Rightarrow> jsnum" where
  "inverse_normalize x = js_mul64 (js_div64 (js_add64 x (Num 128)) (Num 255)) (Num 1000)"

text \<open>The state of the component: one field for each \<^verbatim>\<open>useState\<close>.\<close>

record PredictState =
  form :: FormState
  fieldErrors :: "FormKey \<rightharpoonup> string"
  result :: "PredictionResponse option"
  isLoading :: bool
  error :: "string option"
  hasSubmitted :: bool

definition validateFieldValue :: "FormKey \<Rightarrow> string \<Rightarrow> string option" where
  "validateFieldValue field value =
     (let numValue = Number value in
      if value = [] then None
      else if \<not> isFinite numValue then Some ''Invalid value - must be a number''
      else
        (case field of
           Magnitude \<Rightarrow>
             if js_lt numValue (Num 0) \<or> js_gt numValue (Num 10)
             then Some ''Invalid value - must be between 0 and 10'' else None
         | Depth \<Rightarrow>
             if js_lt numValue (Num 0) \<or> js_gt numValue (Num 700)
             then Some ''Invalid value - must be between 0 and 700'' else None
         | Cdi \<Rightarrow>
             if js_lt numValue (Num 0) \<or> js_gt numValue (Num 12)
             then Some ''Invalid value - must be between 0 and 12'' else None
         | Mmi \<Rightarrow>
             if js_lt numValue (Num 0) \<or> js_gt numValue (Num 12)
             then Some ''Invalid value - must be between 0 and 12'' else None
         | Sig \<Rightarrow>
             if js_lt numValue SIGNIFICANCE_USGS_MIN \<or> js_gt numValue SIGNIFICANCE_USGS_MAX
             then Some ''Invalid value - must be between 0 and 1000'' else None))"

text \<open>An error message is shown when it is truthy, so the empty message clears the entry too.\<close>

definition handleBlur :: "FormKey \<Rightarrow> PredictState \<Rightarrow> PredictState" where
  "handleBlur field s =
     (case validateFieldValue field (formField (form s) field) of
        Some errorMessage \<Rightarrow>
          if errorMessage \<noteq> [] then s\<lparr>fieldErrors := (fieldErrors s)(field \<mapsto> errorMessage)\<rparr>
          else s\<lparr>fieldErrors := (fieldErrors s)(field := None)\<rparr>
      | None \<Rightarrow> s\<lparr>fieldErrors := (fieldErrors s)(field := None)\<rparr>)"

text \<open>
  \<^verbatim>\<open>parsePayload\<close> reads the form of the component's state; \<open>Inl\<close> is the message of the Error
  it throws.
\<close>

definition parsePayload :: "PredictState \<Rightarrow> string + PredictionPayload" where
  "parsePayload s =
     (let magnitude' = Number (magnitude (form s));
          depth' = Number (depth (form s));
          cdi' = Number (cdi (form s));
          mmi' = Number (mmi (form s));
          sig' = Number (sig (form s))
      in
      if \<not> isFinite magnitude' \<or> js_lt magnitude' (Num 0) \<or> js_gt magnitude' (Num 10) then
        Inl ''Magnitude must be a number between 0 and 10.''
      else if \<not> isFinite depth' \<or> js_lt depth' (Num 0) \<or> js_gt depth' (Num 700) then
        Inl ''Depth must be a number between 0 and 700 km.''
      else if \<not> isFinite cdi' \<or> js_lt cdi' (Num 0) \<or> js_gt cdi' (Num 12) then
        Inl ''CDI must be a number between 0 and 12.''
      else if \<not> isFinite mmi' \<or> js_lt mmi' (Num 0) \<or> js_gt mmi' (Num 12) then
        Inl ''MMI must be a number between 0 and 12.''
      else if \<not> isFinite sig' \<or> js_lt sig' SIGNIFICANCE_USGS_MIN \<or> js_gt sig' SIGNIFICANCE_USGS_MAX then
        Inl ''Significance must be between 0 and 1000.''
      else
        (let sigScaled = convertSignificanceToModelScale sig' in
         Inr \<lparr>PredictionPayload.magnitude = magnitude', depth = depth', cdi = cdi', mmi = mmi',
               sig = sigScaled\<rparr>))"

text \<open>
  What a run of \<^verbatim>\<open>handleSubmit\<close> does besides setting state, in order: the call of
  \<^verbatim>\<open>event.preventDefault\<close>, of the two callbacks of the props, and of
  \<^verbatim>\<open>predictEarthquakeRisk\<close> with its argument.
\<close>

datatype Effect =
  PreventDefault
| OnApiRequest
| PredictEarthquakeRisk PredictionPayload
| OnApiSuccess

text \<open>
  \<^verbatim>\<open>handleSubmit\<close>, from the state of the render it was created in to the state once its
  promise has settled, with the effects of the run. What \<^verbatim>\<open>parsePayload\<close> and
  \<^verbatim>\<open>predictEarthquakeRisk\<close> throw is an Error with a message, so the two fallback texts of
  the handler are never shown.
\<close>

definition handleSubmit :: "string option \<Rightarrow> Fetch \<Rightarrow> PredictState \<Rightarrow> PredictState \<times> Effect list" where
  "handleSubmit env fetch s =
     (let s1 = s\<lparr>error := None, result := None\<rparr> in
      case parsePayload s of
        Inl message \<Rightarrow> (s1\<lparr>error := Some message\<rparr>, [PreventDefault])
      | Inr payload \<Rightarrow>
          (let s2 = s1\<lparr>isLoading := True, hasSubmitted := True\<rparr> in
           case predictEarthquakeRisk env fetch payload of
             Inr response \<Rightarrow>
               (s2\<lparr>result := Some response, isLoading := False\<rparr>,
                [PreventDefault, OnApiRequest, PredictEarthquakeRisk payload, OnApiSuccess])
           | Inl message \<Rightarrow>
               (s2\<lparr>error := Some message, isLoading := False\<rparr>,
                [PreventDefault, OnApiRequest, PredictEarthquakeRisk payload])))"



section \<open>The declared ranges\<close>

text \<open>
  The input ranges as the form declares them (its helper texts, the bounds of its inputs and
  the checks of \<^verbatim>\<open>parsePayload\<close>): every field starts at 0 and ends at \<open>fieldMax\<close>. A
  number is within the range of a field when it is finite and lies in the closed interval.
\<close>

fun fieldMax :: "FormKey \<Rightarrow> rat" where
  "fieldMax Magnitude = 10"
| "fieldMax Depth = 700"
| "fieldMax Cdi = 12"
| "fieldMax Mmi = 12"
| "fieldMax Sig = 1000"

fun withinDeclaredRange :: "FormKey \<Rightarrow> jsnum \<Rightarrow> bool" where
  "withinDeclaredRange k (Num r) = (0 \<le> r \<and> r \<le> fieldMax k)"
| "withinDeclaredRange k n = False"

text \<open>The message of the Error that \<^verbatim>\<open>parsePayload\<close> throws for a field.\<close>

fun validationMessage :: "FormKey \<Rightarrow> string" where
  "validationMessage Magnitude = ''Magnitude must be a number between 0 and 10.''"
| "validationMessage Depth = ''Depth must be a number between 0 and 700 km.''"
| "validationMessage Cdi = ''CDI must be a number between 0 and 12.''"
| "validationMessage Mmi = ''MMI must be a number between 0 and 12.''"
| "validationMessage Sig = ''Significance must be between 0 and 1000.''"

fun payloadField :: "PredictionPayload \<Rightarrow> FormKey \<Rightarrow> jsnum" where
  "payloadField p Magnitude = PredictionPayload.magnitude p"
| "payloadField p Depth = PredictionPayload.depth p"
| "payloadField p Cdi = PredictionPayload.cdi p"
| "payloadField p Mmi = PredictionPayload.mmi p"
| "payloadField p Sig = PredictionPayload.sig p"

text \<open>The component as first rendered (the initial value of each \<^verbatim>\<open>useState\<close>) around a form.\<close>

definition initialState :: "FormState \<Rightarrow> PredictState" where
  "initialState f =
     \<lparr>form = f, fieldErrors = Map.empty, result = None, isLoading = False, error = None,
      hasSubmitted = False\<rparr>"

text \<open>A network that is down: \<^verbatim>\<open>fetch\<close> rejects every request.\<close>

definition fetchRejects :: Fetch where
  "fetchRejects request = Inl ''Failed to fetch''"

section \<open>Rounding to binary64: the exponent, the error, the doubles below \<open>2 ^ 53\<close>\<close>

lemma ilog2_bounds:
  assumes "0 < x"
  shows "2 powi ilog2 x \<le> x \<and> x < 2 powi (ilog2 x + 1)"
proof (cases "1 \<le> x")
  case True
  define n where "n = \<lfloor>x\<rfloor>"
  have n: "1 \<le> n" "of_int n \<le> x" "x < of_int n + 1"
    unfolding n_def using True by linarith+
  then have b: "2 ^ nat (bitlen n - 1) \<le> n" "n < 2 ^ nat (bitlen n)"
    using bitlen_bounds [of n] by simp_all
  from n have p: "1 \<le> bitlen n"
    using bitlen_eq_zero_iff [of n] bitlen_nonneg [of n] by linarith
  have e: "ilog2 x = bitlen n - 1"
    using True by (simp add: ilog2_def n_def)
  have "(2::rat) powi (bitlen n - 1) = of_int (2 ^ nat (bitlen n - 1))"
    using p by (simp add: power_int_nonneg_exp)
  also have "\<dots> \<le> of_int n"
    using b(1) by (simp only: of_int_le_iff)
  finally have lo: "2 powi (bitlen n - 1) \<le> x"
    using n(2) by simp
  have "x < of_int (n + 1)"
    using n(3) by simp
  also have "\<dots> \<le> of_int (2 ^ nat (bitlen n))"
    using b(2) by (simp only: of_int_le_iff)
  also have "\<dots> = (2::rat) powi (bitlen n - 1 + 1)"
    using p by (simp add: power_int_nonneg_exp)
  finally have hi: "x < 2 powi (bitlen n - 1 + 1)" .
  from lo hi e show ?thesis by simp
next
  case False
  define m where "m = \<lceil>1 / x\<rceil> - 1"
  from False assms have "1 < 1 / x"
    by (simp add: field_simps)
  then have m: "1 \<le> m" "of_int m < 1 / x" "1 / x \<le> of_int m + 1"
    unfolding m_def by linarith+
  then have b: "2 ^ nat (bitlen m - 1) \<le> m" "m < 2 ^ nat (bitlen m)"
    using bitlen_bounds [of m] by simp_all
  from m have p: "1 \<le> bitlen m"
    using bitlen_eq_zero_iff [of m] bitlen_nonneg [of m] by linarith
  have e: "ilog2 x = - bitlen m"
    using False by (simp add: ilog2_def m_def)
  have "1 / x \<le> of_int (m + 1)"
    using m(3) by simp
  also have "\<dots> \<le> of_int (2 ^ nat (bitlen m))"
    using b(2) by (simp only: of_int_le_iff)
  finally have "1 / x \<le> 2 ^ nat (bitlen m)"
    by simp
  with assms have "1 / 2 ^ nat (bitlen m) \<le> x"
    by (simp add: field_simps)
  moreover have "(2::rat) powi (- bitlen m) = 1 / 2 ^ nat (bitlen m)"
    using p by (simp add: power_int_minus power_int_nonneg_exp field_simps)
  ultimately have lo: "2 powi (- bitlen m) \<le> x"
    by simp
  have "(2::rat) ^ nat (bitlen m - 1) = of_int (2 ^ nat (bitlen m - 1))"
    by simp
  also have "\<dots> \<le> of_int m"
    using b(1) by (simp only: of_int_le_iff)
  also have "\<dots> < 1 / x"
    by (rule m(2))
  finally have "(2::rat) ^ nat (bitlen m - 1) < 1 / x" .
  with assms have "x < 1 / 2 ^ nat (bitlen m - 1)"
    by (simp add: field_simps)
  moreover have "(2::rat) powi (- bitlen m + 1) = 1 / 2 ^ nat (bitlen m - 1)"
  proof -
    have "(2::rat) powi (- bitlen m + 1) = 2 powi (- (bitlen m - 1))"
      by simp
    also have "\<dots> = 1 / 2 ^ nat (bitlen m - 1)"
      using p by (simp only: power_int_minus power_int_nonneg_exp) (simp add: field_simps)
    finally show ?thesis .
  qed
  ultimately have hi: "x < 2 powi (- bitlen m + 1)"
    by simp
  from lo hi e show ?thesis by simp
qed

lemma ilog2_eqI:
  assumes "0 < x" "2 powi e \<le> x" "x < 2 powi (e + 1)"
  shows "ilog2 x = e"
proof (rule ccontr)
  assume ne: "ilog2 x \<noteq> e"
  from ilog2_bounds [OF assms(1)]
  have b: "2 powi ilog2 x \<le> x" "x < 2 powi (ilog2 x + 1)" by simp_all
  show False
  proof (cases "ilog2 x < e")
    case True
    then have "(2::rat) powi (ilog2 x + 1) \<le> 2 powi e"
      by (intro power_int_increasing) simp_all
    with b(2) assms(2) show False by linarith
  next
    case False
    with ne have "e + 1 \<le> ilog2 x" by simp
    then have "(2::rat) powi (e + 1) \<le> 2 powi ilog2 x"
      by (intro power_int_increasing) simp_all
    with b(1) assms(3) show False by linarith
  qed
qed

lemma roundTiesToEven_error:
  "\<bar>of_int (roundTiesToEven m) - m\<bar> \<le> 1 / 2"
proof -
  have "of_int \<lfloor>m\<rfloor> \<le> m" "m < of_int \<lfloor>m\<rfloor> + 1"
    by linarith+
  then show ?thesis
    by (auto simp: roundTiesToEven_def Let_def)
qed

lemma roundTiesToEven_eqI:
  assumes "\<bar>m - of_int n\<bar> < 1 / 2"
  shows "roundTiesToEven m = n"
proof -
  from roundTiesToEven_error [of m] assms
  have "\<bar>(of_int (roundTiesToEven m) :: rat) - of_int n\<bar> < 1"
    by linarith
  then have "\<bar>(of_int (roundTiesToEven m - n) :: rat)\<bar> < 1"
    by simp
  then have "\<bar>roundTiesToEven m - n\<bar> < 1"
    by (simp only: of_int_abs [symmetric] of_int_less_1_iff)
  then show ?thesis by simp
qed

lemma binary64_eqI:
  assumes "x \<noteq> 0" "2 powi e \<le> \<bar>x\<bar>" "\<bar>x\<bar> < 2 powi (e + 1)"
    and "\<bar>x / 2 powi (max e (- 1022) - 52) - of_int n\<bar> < 1 / 2"
    and "\<bar>of_int n * 2 powi (max e (- 1022) - 52)\<bar> < (2::rat) ^ 1024"
  shows "binary64 x = Num (of_int n * 2 powi (max e (- 1022) - 52))"
proof -
  from assms(1) have "0 < \<bar>x\<bar>" by simp
  then have e: "ilog2 \<bar>x\<bar> = e"
    using assms(2,3) by (rule ilog2_eqI)
  have r: "roundTiesToEven (x / 2 powi (max e (- 1022) - 52)) = n"
    using assms(4) by (rule roundTiesToEven_eqI)
  show ?thesis
    using assms(1,5) by (simp add: binary64_def e Let_def r not_le)
qed


lemma binary64_int:
  assumes "\<bar>n\<bar> < 2 ^ 53"
  shows "binary64 (of_int n) = Num (of_int n)"
proof (cases "n = 0")
  case True
  then show ?thesis by (simp add: binary64_def)
next
  case False
  define x :: rat where "x = of_int n"
  define e where "e = ilog2 \<bar>x\<bar>"
  from False have x0: "x \<noteq> 0" and x1: "1 \<le> \<bar>x\<bar>"
    by (simp_all add: x_def flip: of_int_abs)
  have "\<bar>x\<bar> = of_int \<bar>n\<bar>"
    by (simp add: x_def)
  also have "\<dots> < of_int (2 ^ 53)"
    using assms by (simp only: of_int_less_iff)
  finally have x2: "\<bar>x\<bar> < 2 powi 53"
    by simp
  from x0 have b: "2 powi e \<le> \<bar>x\<bar>" "\<bar>x\<bar> < 2 powi (e + 1)"
    using ilog2_bounds [of "\<bar>x\<bar>"] by (simp_all add: e_def)
  have hi: "e < 53"
  proof (rule ccontr)
    assume "\<not> e < 53"
    then have "(2::rat) powi 53 \<le> 2 powi e"
      by (intro power_int_increasing) simp_all
    with b(1) x2 show False by linarith
  qed
  have lo: "0 \<le> e"
  proof (rule ccontr)
    assume "\<not> 0 \<le> e"
    then have "(2::rat) powi (e + 1) \<le> 2 powi 0"
      by (intro power_int_increasing) simp_all
    with b(2) x1 show False by simp
  qed
  from lo hi have k: "max e (- 1022) - 52 = - int (nat (52 - e))"
    by simp
  have q: "(2::rat) powi (max e (- 1022) - 52) = 1 / 2 ^ nat (52 - e)"
    unfolding k by (simp only: power_int_minus power_int_of_nat) (simp add: field_simps)
  have "binary64 x = Num (of_int (n * 2 ^ nat (52 - e)) * 2 powi (max e (- 1022) - 52))"
  proof (rule binary64_eqI [OF x0 b])
    show "\<bar>x / 2 powi (max e (- 1022) - 52) - of_int (n * 2 ^ nat (52 - e))\<bar> < 1 / 2"
      by (simp add: q x_def)
    have "\<bar>x\<bar> < 2 ^ 1024"
      using x2 by simp
    then show "\<bar>of_int (n * 2 ^ nat (52 - e)) * 2 powi (max e (- 1022) - 52)\<bar> < (2::rat) ^ 1024"
      by (simp add: q x_def)
  qed
  then show ?thesis
    by (simp add: q x_def)
qed

lemma binary64_error:
  assumes "\<bar>x\<bar> \<le> 2 ^ 1023"
  shows "\<exists>y. binary64 x = Num y \<and> \<bar>y - x\<bar> \<le> \<bar>x\<bar> / 2 ^ 53 + 1 / 2 ^ 1075"
proof (cases "x = 0")
  case True
  then show ?thesis by (simp add: binary64_def)
next
  case False
  define e where "e = ilog2 \<bar>x\<bar>"
  define q :: rat where "q = 2 powi (max e (- 1022) - 52)"
  define y where "y = of_int (roundTiesToEven (x / q)) * q"
  have q0: "0 < q"
    by (simp add: q_def)
  from False have b: "2 powi e \<le> \<bar>x\<bar>"
    using ilog2_bounds [of "\<bar>x\<bar>"] by (simp add: e_def)
  have "y - x = (of_int (roundTiesToEven (x / q)) - x / q) * q"
    using q0 by (simp add: y_def algebra_simps)
  then have "\<bar>y - x\<bar> = \<bar>of_int (roundTiesToEven (x / q)) - x / q\<bar> * q"
    using q0 by (simp add: abs_mult)
  also have "\<dots> \<le> 1 / 2 * q"
    using roundTiesToEven_error [of "x / q"] q0 by (intro mult_right_mono) simp_all
  finally have err: "\<bar>y - x\<bar> \<le> q / 2"
    by simp
  have qb: "q / 2 \<le> \<bar>x\<bar> / 2 ^ 53 + 1 / 2 ^ 1075"
  proof (cases "- 1022 \<le> e")
    case True
    then have "q = 2 powi e / 2 ^ 52"
      by (simp add: q_def max_def power_int_diff)
    with b have "q / 2 \<le> \<bar>x\<bar> / 2 ^ 53"
      by (simp add: field_simps)
    then show ?thesis
      by (rule order_trans) simp
  next
    case False
    then have "q = 1 / 2 ^ 1074"
      by (simp add: q_def max_def power_int_minus field_simps)
    then show ?thesis
      by simp
  qed
  from err qb have eb: "\<bar>y - x\<bar> \<le> \<bar>x\<bar> / 2 ^ 53 + 1 / 2 ^ 1075"
    by linarith
  have "\<bar>y\<bar> \<le> \<bar>x\<bar> + \<bar>y - x\<bar>"
    by linarith
  also have "\<dots> \<le> 2 ^ 1023 + (2 ^ 1023 / 2 ^ 53 + 1 / 2 ^ 1075)"
    using eb assms by (intro add_mono) (auto simp: field_simps intro: order_trans)
  also have "\<dots> < (2::rat) ^ 1024"
    by simp
  finally have fin: "\<not> 2 ^ 1024 \<le> \<bar>y\<bar>"
    by simp
  have "binary64 x = Num y"
    using False fin by (simp add: binary64_def Let_def e_def q_def y_def)
  with eb show ?thesis by blast
qed

text \<open>What is at least \<open>2 ^ 1024\<close> rounds to +\<infinity>.\<close>

lemma binary64_overflow:
  assumes "2 ^ 1024 \<le> x"
  shows "binary64 x = PosInfinity"
proof -
  define e where "e = ilog2 \<bar>x\<bar>"
  define q :: rat where "q = 2 powi (max e (- 1022) - 52)"
  from assms have x0: "0 < x" "\<bar>x\<bar> = x"
    by (simp_all add: less_le_trans [of 0 "2 ^ 1024" x])
  then have b: "2 powi e \<le> x" "x < 2 powi (e + 1)"
    using ilog2_bounds [of "\<bar>x\<bar>"] by (simp_all add: e_def)
  have e: "1024 \<le> e"
  proof (rule ccontr)
    assume "\<not> 1024 \<le> e"
    then have "(2::rat) powi (e + 1) \<le> 2 powi 1024"
      by (intro power_int_increasing) simp_all
    with b(2) assms show False by simp
  qed
  then have q: "q = 2 powi e / 2 ^ 52" "0 < q"
    by (simp_all add: q_def max_def power_int_diff)
  have "(2::rat) ^ 52 \<le> x / q"
    using b(1) q x0 by (simp add: field_simps)
  moreover have "x / q - 1 / 2 \<le> of_int (roundTiesToEven (x / q))"
    using roundTiesToEven_error [of "x / q"] by linarith
  ultimately have "(2::rat) ^ 52 - 1 / 2 \<le> of_int (roundTiesToEven (x / q))"
    by linarith
  then have "(of_int (2 ^ 52 - 1) :: rat) < of_int (roundTiesToEven (x / q))"
    by simp
  then have "2 ^ 52 - 1 < roundTiesToEven (x / q)"
    by (simp only: of_int_less_iff)
  then have "(of_int (2 ^ 52) :: rat) \<le> of_int (roundTiesToEven (x / q))"
    by (simp only: of_int_le_iff)
  then have "2 ^ 52 * q \<le> of_int (roundTiesToEven (x / q)) * q"
    using q(2) by (intro mult_right_mono) simp_all
  moreover have "2 ^ 52 * q = 2 powi e"
    by (simp add: q(1))
  moreover have "(2::rat) ^ 1024 \<le> 2 powi e"
    using power_int_increasing [of 1024 e "2::rat"] e by simp
  ultimately have "2 ^ 1024 \<le> \<bar>of_int (roundTiesToEven (x / q)) * q\<bar>"
    by linarith
  with x0 show ?thesis
    unfolding q_def e_def by (simp add: binary64_def Let_def)
qed

text \<open>
  The error of one rounding, for a value of magnitude at most \<open>B\<close>: half a unit in the last
  place, which is at most \<open>B / 2 ^ 53\<close>, or \<open>1 / 2 ^ 1075\<close> for a subnormal result.
\<close>

lemma round_step:
  assumes "\<bar>x\<bar> \<le> B" "B \<le> 2 ^ 1023"
  shows "\<exists>y. binary64 x = Num y \<and> \<bar>y - x\<bar> \<le> (B + 1 / 100) * (1 / 2 ^ 53)"
proof -
  from assms have "\<bar>x\<bar> \<le> 2 ^ 1023" by linarith
  from binary64_error [OF this] obtain y where
    y: "binary64 x = Num y" "\<bar>y - x\<bar> \<le> \<bar>x\<bar> / 2 ^ 53 + 1 / 2 ^ 1075"
    by blast
  from assms(1) have "\<bar>x\<bar> / 2 ^ 53 \<le> B / 2 ^ 53"
    by (simp add: divide_right_mono)
  moreover have "(1::rat) / 2 ^ 1075 \<le> (1 / 100) / 2 ^ 53"
    by simp
  ultimately have "\<bar>y - x\<bar> \<le> (B + 1 / 100) * (1 / 2 ^ 53)"
    using y(2) by (simp add: add_divide_distrib)
  with y(1) show ?thesis by blast
qed

text \<open>A double is found from its exponent and its significand by \<open>binary64_eqI\<close>.\<close>

lemma binary64_literals:
  "binary64 7 = Num 7" "binary64 50 = Num 50" "binary64 8 = Num 8" "binary64 9 = Num 9"
  "binary64 500 = Num 500" "binary64 700 = Num 700" "binary64 10 = Num 10"
  "binary64 1 = Num 1" "binary64 100 = Num 100" "binary64 1000 = Num 1000"
  "binary64 255 = Num 255" "binary64 128 = Num 128" "binary64 (- 128) = Num (- 128)"
  using binary64_int [of 7] binary64_int [of 50] binary64_int [of 8] binary64_int [of 9]
    binary64_int [of 500] binary64_int [of 700] binary64_int [of 10] binary64_int [of 1]
    binary64_int [of 100] binary64_int [of 1000] binary64_int [of 255] binary64_int [of 128]
    binary64_int [of "- 128"]
  by simp_all

lemma binary64_10_1:
  "binary64 (101 / 10) = Num (5685794529555251 / 562949953421312)"
  using binary64_eqI [of "101 / 10" 3 5685794529555251] by simp

lemma binary64_above_10:
  "binary64 (100000000000000000001 / 10000000000000000000) = Num 10"
  using binary64_eqI [of "100000000000000000001 / 10000000000000000000" 3 5629499534213120]
  by simp

lemma binary64_below_min:
  "binary64 (- (1 / 10 ^ 324)) = Num 0"
  using binary64_eqI [of "- (1 / 10 ^ 324)" "- 1077" 0] by simp

section \<open>Number, the range checks and the conversion\<close>

lemmas Number_parse =
  Number_def trimString_def isStrWhiteSpaceChar_def nonDecimalIntegerLiteral_def
  strDecimalLiteral_def strUnsignedDecimalLiteral_def isDigitOf_def digitValue_def
  digitsValue_def parseExponentPart_def parseDigits_def pow10_def

lemma Number_literals:
  "Number ''7.0'' = Num 7" "Number ''50'' = Num 50" "Number ''8.0'' = Num 8"
  "Number ''9.0'' = Num 9" "Number ''500'' = Num 500" "Number ''700'' = Num 700"
  "Number ''10.1'' = Num (5685794529555251 / 562949953421312)" "Number ''10'' = Num 10"
  "Number ''1'' = Num 1" "Number ''100'' = Num 100"
  by (simp_all add: Number_parse binary64_literals binary64_10_1)

text \<open>
  Rounding decides what the checks of the form see. The first literal is above 10 and the
  form's \<^verbatim>\<open>magnitude > 10\<close> is false for it, since the nearest double is 10; the second is
  negative and rounds to a zero, for which \<^verbatim>\<open>magnitude < 0\<close> is false; the third is finite
  and rounds to +\<infinity>, which \<^verbatim>\<open>Number.isFinite\<close> refuses.
\<close>

lemma Number_rounds:
  "Number ''10.0000000000000000001'' = Num 10"
  by (simp add: Number_parse binary64_above_10)

lemma Number_underflow: "Number ''-1e-324'' = Num 0"
  using binary64_below_min by (simp add: Number_parse)

lemma Number_overflow: "Number ''1e309'' = PosInfinity"
  using binary64_overflow [of "10 ^ 309"] by (simp add: Number_parse)

lemma trimString_whitespace:
  assumes "list_all isStrWhiteSpaceChar ws"
  shows "trimString ws = []"
proof -
  from assms have h: "dropWhile isStrWhiteSpaceChar ws = []"
    by (induction ws) simp_all
  show ?thesis
    by (simp only: trimString_def h rev.simps dropWhile.simps)
qed

lemma Number_whitespace:
  "list_all isStrWhiteSpaceChar ws \<Longrightarrow> Number ws = Num 0"
  by (simp add: Number_def trimString_whitespace)

lemma range_check:
  "(\<not> isFinite n \<or> js_lt n (Num 0) \<or> js_gt n (Num (fieldMax k))) = (\<not> withinDeclaredRange k n)"
  by (cases n) (auto simp: js_gt_def)

lemma convert_finite:
  "convertSignificanceToModelScale (Num r) = Num (r * 255 / 1000 - 128)"
  by (simp add: convertSignificanceToModelScale_def Let_def js_sub_def SIGNIFICANCE_USGS_MIN_def
      SIGNIFICANCE_USGS_MAX_def SIGNIFICANCE_MODEL_MIN_def SIGNIFICANCE_MODEL_MAX_def)

text \<open>
  The conversion in binary64 and the inverse map after it, rounding by rounding: seven
  roundings, each within its half unit, leave the result of the conversion and of the round
  trip within \<open>1 / 10 ^ 12\<close> of the exact values.
\<close>

lemma round_trip_chain:
  assumes "0 \<le> s" "s \<le> 1000"
  shows "\<exists>x y. convertSignificanceToModelScale64 (Num s) = Num x
           \<and> inverse_normalize (Num x) = Num y
           \<and> \<bar>x - (s * 255 / 1000 - 128)\<bar> \<le> 1 / 10 ^ 12
           \<and> \<bar>y - s\<bar> \<le> 1 / 10 ^ 12"
proof -
  define u :: rat where "u = 1 / 2 ^ 53"
  have u: "0 < u" "u \<le> 1 / 9000000000000000"
    by (simp_all add: u_def)
  from assms have "\<bar>s\<bar> \<le> 1000" by linarith
  from round_step [OF this] obtain v where
    v: "binary64 s = Num v" "\<bar>v - s\<bar> \<le> 100001 / 100 * u"
    unfolding u_def by auto
  from u v(2) assms have "\<bar>v / 1000\<bar> \<le> 101 / 100" by linarith
  from round_step [OF this] obtain n where
    n: "binary64 (v / 1000) = Num n" "\<bar>n - v / 1000\<bar> \<le> 102 / 100 * u"
    unfolding u_def by auto
  from u v(2) n(2) assms have "\<bar>n * 255\<bar> \<le> 256" by linarith
  from round_step [OF this] obtain p where
    p: "binary64 (n * 255) = Num p" "\<bar>p - n * 255\<bar> \<le> 25601 / 100 * u"
    unfolding u_def by auto
  from u v(2) n(2) p(2) assms have "\<bar>p - 128\<bar> \<le> 129" by linarith
  from round_step [OF this] obtain x where
    x: "binary64 (p - 128) = Num x" "\<bar>x - (p - 128)\<bar> \<le> 12901 / 100 * u"
    unfolding u_def by auto
  from u v(2) n(2) p(2) x(2) assms have "\<bar>x + 128\<bar> \<le> 257" by linarith
  from round_step [OF this] obtain a where
    a: "binary64 (x + 128) = Num a" "\<bar>a - (x + 128)\<bar> \<le> 25701 / 100 * u"
    unfolding u_def by auto
  from u v(2) n(2) p(2) x(2) a(2) assms have "\<bar>a / 255\<bar> \<le> 101 / 100" by linarith
  from round_step [OF this] obtain b where
    b: "binary64 (a / 255) = Num b" "\<bar>b - a / 255\<bar> \<le> 102 / 100 * u"
    unfolding u_def by auto
  from u v(2) n(2) p(2) x(2) a(2) b(2) assms have "\<bar>b * 1000\<bar> \<le> 1024" by linarith
  from round_step [OF this] obtain y where
    y: "binary64 (b * 1000) = Num y" "\<bar>y - b * 1000\<bar> \<le> 102401 / 100 * u"
    unfolding u_def by auto
  have c: "convertSignificanceToModelScale64 (Num s) = Num x"
    by (simp add: convertSignificanceToModelScale64_def js_sub64_def js_sub_def js_div64_def
        js_mul64_def js_add64_def SIGNIFICANCE_USGS_MIN_def SIGNIFICANCE_USGS_MAX_def
        SIGNIFICANCE_MODEL_MIN_def SIGNIFICANCE_MODEL_MAX_def binary64_literals v(1) n(1) p(1)
        x(1))
  have i: "inverse_normalize (Num x) = Num y"
    by (simp add: inverse_normalize_def js_add64_def js_div64_def js_mul64_def a(1) b(1) y(1))
  from u v(2) n(2) p(2) x(2) have "\<bar>x - (s * 255 / 1000 - 128)\<bar> \<le> 1 / 1000000000000"
    by linarith
  then have ex: "\<bar>x - (s * 255 / 1000 - 128)\<bar> \<le> 1 / 10 ^ 12"
    by simp
  from u v(2) n(2) p(2) x(2) a(2) b(2) y(2) have "\<bar>y - s\<bar> \<le> 1 / 1000000000000"
    by linarith
  then have ey: "\<bar>y - s\<bar> \<le> 1 / 10 ^ 12"
    by simp
  from c i ex ey show ?thesis by blast
qed

text \<open>
  So the conversion with exact operators, which \<^verbatim>\<open>parsePayload\<close> is modelled with, is the
  conversion of the engine up to that rounding.
\<close>

lemma convert64_close:
  assumes "0 \<le> s" "s \<le> 1000"
  shows "\<exists>x x'. convertSignificanceToModelScale64 (Num s) = Num x
           \<and> convertSignificanceToModelScale (Num s) = Num x'
           \<and> \<bar>x - x'\<bar> \<le> 1 / 10 ^ 12"
  using round_trip_chain [OF assms] convert_finite [of s] by auto



section \<open>parsePayload and handleSubmit, branch by branch\<close>

lemma offending_field:
  "(\<exists>k. \<not> withinDeclaredRange k (Number (formField (form s) k))) =
     (\<not> withinDeclaredRange Magnitude (Number (magnitude (form s)))
      \<or> \<not> withinDeclaredRange Depth (Number (depth (form s)))
      \<or> \<not> withinDeclaredRange Cdi (Number (cdi (form s)))
      \<or> \<not> withinDeclaredRange Mmi (Number (mmi (form s)))
      \<or> \<not> withinDeclaredRange Sig (Number (sig (form s))))"
proof
  assume "\<exists>k. \<not> withinDeclaredRange k (Number (formField (form s) k))"
  then obtain k where "\<not> withinDeclaredRange k (Number (formField (form s) k))" ..
  then show "\<not> withinDeclaredRange Magnitude (Number (magnitude (form s)))
      \<or> \<not> withinDeclaredRange Depth (Number (depth (form s)))
      \<or> \<not> withinDeclaredRange Cdi (Number (cdi (form s)))
      \<or> \<not> withinDeclaredRange Mmi (Number (mmi (form s)))
      \<or> \<not> withinDeclaredRange Sig (Number (sig (form s)))"
    by (cases k) simp_all
next
  assume "\<not> withinDeclaredRange Magnitude (Number (magnitude (form s)))
      \<or> \<not> withinDeclaredRange Depth (Number (depth (form s)))
      \<or> \<not> withinDeclaredRange Cdi (Number (cdi (form s)))
      \<or> \<not> withinDeclaredRange Mmi (Number (mmi (form s)))
      \<or> \<not> withinDeclaredRange Sig (Number (sig (form s)))"
  then show "\<exists>k. \<not> withinDeclaredRange k (Number (formField (form s) k))"
    by (metis formField.simps)
qed

lemma parsePayload_cases:
  "parsePayload s =
     (if \<not> withinDeclaredRange Magnitude (Number (magnitude (form s))) then Inl (validationMessage Magnitude)
      else if \<not> withinDeclaredRange Depth (Number (depth (form s))) then Inl (validationMessage Depth)
      else if \<not> withinDeclaredRange Cdi (Number (cdi (form s))) then Inl (validationMessage Cdi)
      else if \<not> withinDeclaredRange Mmi (Number (mmi (form s))) then Inl (validationMessage Mmi)
      else if \<not> withinDeclaredRange Sig (Number (sig (form s))) then Inl (validationMessage Sig)
      else Inr \<lparr>PredictionPayload.magnitude = Number (magnitude (form s)),
                 depth = Number (depth (form s)), cdi = Number (cdi (form s)),
                 mmi = Number (mmi (form s)),
                 sig = convertSignificanceToModelScale (Number (sig (form s)))\<rparr>)"
  using range_check [of _ Magnitude] range_check [of _ Depth] range_check [of _ Cdi]
    range_check [of _ Mmi] range_check [of _ Sig]
  by (simp add: parsePayload_def Let_def SIGNIFICANCE_USGS_MIN_def SIGNIFICANCE_USGS_MAX_def)

lemma parsePayload_accepted:
  assumes "\<forall>k. withinDeclaredRange k (Number (formField (form s) k))"
  shows "parsePayload s =
     Inr \<lparr>PredictionPayload.magnitude = Number (magnitude (form s)),
          depth = Number (depth (form s)), cdi = Number (cdi (form s)),
          mmi = Number (mmi (form s)),
          sig = convertSignificanceToModelScale (Number (sig (form s)))\<rparr>"
proof -
  from assms have "\<not> (\<exists>k. \<not> withinDeclaredRange k (Number (formField (form s) k)))"
    by simp
  then show ?thesis
    unfolding offending_field by (simp add: parsePayload_cases)
qed

text \<open>The checks run in the order of the fields, so the first offending field is reported.\<close>

lemma parsePayload_rejected:
  assumes "\<exists>k. \<not> withinDeclaredRange k (Number (formField (form s) k))"
  shows "\<exists>k. \<not> withinDeclaredRange k (Number (formField (form s) k))
           \<and> parsePayload s = Inl (validationMessage k)"
proof -
  let ?bad = "\<lambda>k. \<not> withinDeclaredRange k (Number (formField (form s) k))"
  from assms have
    "?bad Magnitude \<or> ?bad Depth \<or> ?bad Cdi \<or> ?bad Mmi \<or> ?bad Sig"
    unfolding offending_field by simp
  then consider
      (m) "?bad Magnitude"
    | (d) "\<not> ?bad Magnitude" "?bad Depth"
    | (c) "\<not> ?bad Magnitude" "\<not> ?bad Depth" "?bad Cdi"
    | (i) "\<not> ?bad Magnitude" "\<not> ?bad Depth" "\<not> ?bad Cdi" "?bad Mmi"
    | (g) "\<not> ?bad Magnitude" "\<not> ?bad Depth" "\<not> ?bad Cdi" "\<not> ?bad Mmi" "?bad Sig"
    by blast
  then show ?thesis
  proof cases
    case m
    then have "parsePayload s = Inl (validationMessage Magnitude)"
      by (simp add: parsePayload_cases)
    with m show ?thesis by blast
  next
    case d
    then have "parsePayload s = Inl (validationMessage Depth)"
      by (simp add: parsePayload_cases)
    with d show ?thesis by blast
  next
    case c
    then have "parsePayload s = Inl (validationMessage Cdi)"
      by (simp add: parsePayload_cases)
    with c show ?thesis by blast
  next
    case i
    then have "parsePayload s = Inl (validationMessage Mmi)"
      by (simp add: parsePayload_cases)
    with i show ?thesis by blast
  next
    case g
    then have "parsePayload s = Inl (validationMessage Sig)"
      by (simp add: parsePayload_cases)
    with g show ?thesis by blast
  qed
qed

lemma parsePayload_form:
  "form s' = form s \<Longrightarrow> parsePayload s' = parsePayload s"
  by (simp add: parsePayload_def)

lemma handleSubmit_rejected:
  "parsePayload s = Inl message \<Longrightarrow>
     handleSubmit env fetch s = (s\<lparr>error := Some message, result := None\<rparr>, [PreventDefault])"
  by (simp add: handleSubmit_def)


lemma handleSubmit_form:
  "form (fst (handleSubmit env fetch s)) = form s"
  by (simp add: handleSubmit_def Let_def split: sum.splits)

lemma scenario_within:
  "withinDeclaredRange k
     (Number (formField (form (initialState
        \<lparr>magnitude = ''7.0'', depth = ''50'', cdi = ''8.0'', mmi = ''9.0'', sig = ''500''\<rparr>)) k))"
  by (cases k) (simp_all add: initialState_def Number_literals)

lemma magnitude_offending:
  "\<not> withinDeclaredRange Magnitude
       (Number (formField (form (initialState
          \<lparr>magnitude = ''10.1'', depth = ''10'', cdi = ''1'', mmi = ''1'', sig = ''100''\<rparr>))
          Magnitude))"
  by (simp add: initialState_def Number_literals)

section \<open>The claims\<close>





text \<open>
  C3 (amended). The conversion maps the significance 700 of the end-to-end scenario to 50.5,
  which is \<open>700 / 1000 * 255 - 128\<close>.
\<close>

theorem convertSignificance_700:
  "convertSignificanceToModelScale (Num 700) = Num (101 / 2)
   \<and> (700 :: rat) / 1000 * 255 - 128 = 101 / 2"
  by (simp add: convert_finite)

text \<open>It is neither of the two values the spec gives, 37.3 and 56.5.\<close>

theorem convertSignificance_700_not_37_3:
  "convertSignificanceToModelScale (Num 700) \<noteq> Num (373 / 10)
   \<and> convertSignificanceToModelScale (Num 700) \<noteq> Num (113 / 2)"
  by (simp add: convert_finite)

text \<open>
  C4. When some field of the form is not a finite number within its declared range,
  \<^verbatim>\<open>parsePayload\<close> throws, and the message is the one of an offending field, which names the
  field and its range. The form with the magnitude 10.1 is rejected with the message about
  the magnitude.
\<close>

theorem parsePayload_rejects_invalid:
  "((\<exists>k. \<not> withinDeclaredRange k (Number (formField (form s) k))) \<longrightarrow>
      (\<exists>k. \<not> withinDeclaredRange k (Number (formField (form s) k))
            \<and> parsePayload s = Inl (validationMessage k)))
   \<and> parsePayload (initialState \<lparr>magnitude = ''10.1'', depth = ''10'', cdi = ''1'', mmi = ''1'',
                                  sig = ''100''\<rparr>)
       = Inl ''Magnitude must be a number between 0 and 10.''"
  using parsePayload_rejected [of s]
  by (simp add: parsePayload_cases initialState_def Number_literals)

theorem parsePayload_rejects_invalid_witness:
  "(\<exists>k. \<not> withinDeclaredRange k
           (Number (formField (form (initialState
              \<lparr>magnitude = ''10.1'', depth = ''10'', cdi = ''1'', mmi = ''1'', sig = ''100''\<rparr>)) k)))
   \<and> (\<exists>k. \<not> withinDeclaredRange k
             (Number (formField (form (initialState
                \<lparr>magnitude = ''10.1'', depth = ''10'', cdi = ''1'', mmi = ''1'', sig = ''100''\<rparr>)) k))
           \<and> parsePayload (initialState
                \<lparr>magnitude = ''10.1'', depth = ''10'', cdi = ''1'', mmi = ''1'', sig = ''100''\<rparr>)
               = Inl (validationMessage k))"
proof -
  have h: "\<exists>k. \<not> withinDeclaredRange k
           (Number (formField (form (initialState
              \<lparr>magnitude = ''10.1'', depth = ''10'', cdi = ''1'', mmi = ''1'', sig = ''100''\<rparr>)) k))"
    using magnitude_offending by blast
  from h parsePayload_rejects_invalid
    [of "initialState \<lparr>magnitude = ''10.1'', depth = ''10'', cdi = ''1'', mmi = ''1'', sig = ''100''\<rparr>"]
  show ?thesis
    by blast
qed




text \<open>
  C6. When some field fails validation, \<^verbatim>\<open>handleSubmit\<close> sets the error to the message of
  \<^verbatim>\<open>parsePayload\<close> and returns: besides \<^verbatim>\<open>preventDefault\<close> it has no effect, so
  \<^verbatim>\<open>predictEarthquakeRisk\<close> is not called and neither callback fires, whatever the network
  would answer.
\<close>

theorem handleSubmit_fails_fast:
  assumes "\<exists>k. \<not> withinDeclaredRange k (Number (formField (form s) k))"
  shows "\<exists>message. parsePayload s = Inl message
           \<and> handleSubmit env fetch s
               = (s\<lparr>error := Some message, result := None\<rparr>, [PreventDefault])"
  using parsePayload_rejected [OF assms] handleSubmit_rejected by blast

theorem handleSubmit_fails_fast_witness:
  "(\<exists>k. \<not> withinDeclaredRange k
           (Number (formField (form (initialState
              \<lparr>magnitude = ''10.1'', depth = ''10'', cdi = ''1'', mmi = ''1'', sig = ''100''\<rparr>)) k)))
   \<and> (\<exists>message.
         parsePayload (initialState
            \<lparr>magnitude = ''10.1'', depth = ''10'', cdi = ''1'', mmi = ''1'', sig = ''100''\<rparr>)
           = Inl message
         \<and> handleSubmit None fetchRejects (initialState
              \<lparr>magnitude = ''10.1'', depth = ''10'', cdi = ''1'', mmi = ''1'', sig = ''100''\<rparr>)
             = ((initialState
                  \<lparr>magnitude = ''10.1'', depth = ''10'', cdi = ''1'', mmi = ''1'', sig = ''100''\<rparr>)
                  \<lparr>error := Some message, result := None\<rparr>,
                [PreventDefault]))"
proof -
  have h: "\<exists>k. \<not> withinDeclaredRange k
           (Number (formField (form (initialState
              \<lparr>magnitude = ''10.1'', depth = ''10'', cdi = ''1'', mmi = ''1'', sig = ''100''\<rparr>)) k))"
    using magnitude_offending by blast
  from h handleSubmit_fails_fast [OF h, of None fetchRejects] show ?thesis
    by blast
qed

text \<open>
  C7. For a form whose five fields are within their declared ranges, \<^verbatim>\<open>parsePayload\<close>
  returns a payload whose magnitude, depth, cdi and mmi are the parsed inputs unchanged; only
  the significance is transformed, by the conversion to the model scale.
\<close>

theorem parsePayload_pass_through:
  assumes "\<forall>k. withinDeclaredRange k (Number (formField (form s) k))"
  shows "\<exists>p. parsePayload s = Inr p
           \<and> PredictionPayload.magnitude p = Number (magnitude (form s))
           \<and> PredictionPayload.depth p = Number (depth (form s))
           \<and> PredictionPayload.cdi p = Number (cdi (form s))
           \<and> PredictionPayload.mmi p = Number (mmi (form s))
           \<and> PredictionPayload.sig p = convertSignificanceToModelScale (Number (sig (form s)))"
  using parsePayload_accepted [OF assms] by simp

theorem parsePayload_pass_through_witness:
  "(\<forall>k. withinDeclaredRange k
          (Number (formField (form (initialState
             \<lparr>magnitude = ''7.0'', depth = ''50'', cdi = ''8.0'', mmi = ''9.0'', sig = ''500''\<rparr>)) k)))
   \<and> parsePayload (initialState
        \<lparr>magnitude = ''7.0'', depth = ''50'', cdi = ''8.0'', mmi = ''9.0'', sig = ''500''\<rparr>)
       = Inr \<lparr>PredictionPayload.magnitude = Num 7, depth = Num 50, cdi = Num 8, mmi = Num 9,
              sig = Num (- (1 / 2))\<rparr>"
proof -
  have h: "\<forall>k. withinDeclaredRange k
          (Number (formField (form (initialState
             \<lparr>magnitude = ''7.0'', depth = ''50'', cdi = ''8.0'', mmi = ''9.0'', sig = ''500''\<rparr>)) k))"
    using scenario_within by blast
  from parsePayload_pass_through [OF h] obtain p where
    "parsePayload (initialState
        \<lparr>magnitude = ''7.0'', depth = ''50'', cdi = ''8.0'', mmi = ''9.0'', sig = ''500''\<rparr>) = Inr p"
    "PredictionPayload.magnitude p = Num 7" "PredictionPayload.depth p = Num 50"
    "PredictionPayload.cdi p = Num 8" "PredictionPayload.mmi p = Num 9"
    "PredictionPayload.sig p = Num (- (1 / 2))"
    by (auto simp: initialState_def Number_literals convert_finite)
  with h show ?thesis
    by simp
qed

text \<open>
  C8. The client-side pipeline is a function of the form alone: \<^verbatim>\<open>parsePayload\<close> gives the
  same error or the same payload in any two states of the component that hold the same form,
  a run of \<^verbatim>\<open>handleSubmit\<close> leaves what \<^verbatim>\<open>parsePayload\<close> returns unchanged, and a second run
  against the same network ends in the same state with the same effects as the first.
\<close>

theorem pipeline_deterministic:
  "(form s' = form s \<longrightarrow> parsePayload s' = parsePayload s)
   \<and> parsePayload (fst (handleSubmit env fetch s)) = parsePayload s
   \<and> handleSubmit env fetch (fst (handleSubmit env fetch s)) = handleSubmit env fetch s"
proof -
  have a: "parsePayload (fst (handleSubmit env fetch s)) = parsePayload s"
    by (rule parsePayload_form) (rule handleSubmit_form)
  have b: "handleSubmit env fetch (fst (handleSubmit env fetch s)) = handleSubmit env fetch s"
  proof (cases "parsePayload s")
    case (Inl m)
    then show ?thesis using a by (simp add: handleSubmit_def)
  next
    case (Inr p)
    then show ?thesis using a
      by (cases "predictEarthquakeRisk env fetch p") (simp_all add: handleSubmit_def)
  qed
  show ?thesis using a b parsePayload_form by blast
qed

theorem pipeline_deterministic_witness:
  "form ((initialState
           \<lparr>magnitude = ''7.0'', depth = ''50'', cdi = ''8.0'', mmi = ''9.0'', sig = ''500''\<rparr>)
           \<lparr>error := Some ''Failed to fetch'', hasSubmitted := True\<rparr>)
     = form (initialState
          \<lparr>magnitude = ''7.0'', depth = ''50'', cdi = ''8.0'', mmi = ''9.0'', sig = ''500''\<rparr>)
   \<and> parsePayload ((initialState
           \<lparr>magnitude = ''7.0'', depth = ''50'', cdi = ''8.0'', mmi = ''9.0'', sig = ''500''\<rparr>)
           \<lparr>error := Some ''Failed to fetch'', hasSubmitted := True\<rparr>)
       = parsePayload (initialState
           \<lparr>magnitude = ''7.0'', depth = ''50'', cdi = ''8.0'', mmi = ''9.0'', sig = ''500''\<rparr>)
   \<and> handleSubmit None fetchRejects
        (fst (handleSubmit None fetchRejects (initialState
           \<lparr>magnitude = ''7.0'', depth = ''50'', cdi = ''8.0'', mmi = ''9.0'', sig = ''500''\<rparr>)))
       = handleSubmit None fetchRejects (initialState
           \<lparr>magnitude = ''7.0'', depth = ''50'', cdi = ''8.0'', mmi = ''9.0'', sig = ''500''\<rparr>)"
proof -
  have h: "form ((initialState
           \<lparr>magnitude = ''7.0'', depth = ''50'', cdi = ''8.0'', mmi = ''9.0'', sig = ''500''\<rparr>)
           \<lparr>error := Some ''Failed to fetch'', hasSubmitted := True\<rparr>)
     = form (initialState
          \<lparr>magnitude = ''7.0'', depth = ''50'', cdi = ''8.0'', mmi = ''9.0'', sig = ''500''\<rparr>)"
    by simp
  from h pipeline_deterministic
    [of "(initialState
           \<lparr>magnitude = ''7.0'', depth = ''50'', cdi = ''8.0'', mmi = ''9.0'', sig = ''500''\<rparr>)
           \<lparr>error := Some ''Failed to fetch'', hasSubmitted := True\<rparr>"
        "initialState
           \<lparr>magnitude = ''7.0'', depth = ''50'', cdi = ''8.0'', mmi = ''9.0'', sig = ''500''\<rparr>"
        None fetchRejects]
  show ?thesis
    by blast
qed

text \<open>
  C9. A string of white space only is accepted in any field: \<^verbatim>\<open>validateFieldValue\<close> returns
  no error for it, \<^verbatim>\<open>Number\<close> reads it as 0, and when the other fields are within their
  ranges \<^verbatim>\<open>parsePayload\<close> returns a payload that holds 0 for the field, or -128 when the field
  is the significance, which is converted.
\<close>

theorem whitespace_field_accepted:
  assumes "list_all isStrWhiteSpaceChar ws"
  shows "validateFieldValue k ws = None \<and> Number ws = Num 0
         \<and> (formField (form s) k = ws
              \<and> (\<forall>j. j \<noteq> k \<longrightarrow> withinDeclaredRange j (Number (formField (form s) j)))
            \<longrightarrow> (\<exists>p. parsePayload s = Inr p
                      \<and> payloadField p k = (if k = Sig then Num (- 128) else Num 0)))"
proof -
  have n: "Number ws = Num 0"
    using assms by (rule Number_whitespace)
  have v: "validateFieldValue k ws = None"
    by (cases k)
      (simp_all add: validateFieldValue_def Let_def n js_gt_def SIGNIFICANCE_USGS_MIN_def
        SIGNIFICANCE_USGS_MAX_def)
  have "\<exists>p. parsePayload s = Inr p
           \<and> payloadField p k = (if k = Sig then Num (- 128) else Num 0)"
    if f: "formField (form s) k = ws"
      and o: "\<forall>j. j \<noteq> k \<longrightarrow> withinDeclaredRange j (Number (formField (form s) j))"
  proof -
    from f n have z: "Number (formField (form s) k) = Num 0"
      by simp
    have "withinDeclaredRange k (Num 0)"
      by (cases k) simp_all
    with z o have "\<forall>j. withinDeclaredRange j (Number (formField (form s) j))"
      by metis
    then have p: "parsePayload s =
       Inr \<lparr>PredictionPayload.magnitude = Number (magnitude (form s)),
            depth = Number (depth (form s)), cdi = Number (cdi (form s)),
            mmi = Number (mmi (form s)),
            sig = convertSignificanceToModelScale (Number (sig (form s)))\<rparr>"
      by (rule parsePayload_accepted)
    from z show ?thesis
      unfolding p by (cases k) (simp_all add: convert_finite)
  qed
  with n v show ?thesis by blast
qed

theorem whitespace_field_accepted_witness:
  "list_all isStrWhiteSpaceChar [CHR 0x20, CHR 0x09]
   \<and> validateFieldValue Sig [CHR 0x20, CHR 0x09] = None
   \<and> Number [CHR 0x20, CHR 0x09] = Num 0
   \<and> (\<exists>p. parsePayload (initialState
               \<lparr>magnitude = ''7.0'', depth = ''50'', cdi = ''8.0'', mmi = ''9.0'',
                sig = [CHR 0x20, CHR 0x09]\<rparr>) = Inr p
          \<and> payloadField p Sig = Num (- 128))"
proof -
  let ?s = "initialState
               \<lparr>magnitude = ''7.0'', depth = ''50'', cdi = ''8.0'', mmi = ''9.0'',
                sig = [CHR 0x20, CHR 0x09]\<rparr>"
  have h: "list_all isStrWhiteSpaceChar [CHR 0x20, CHR 0x09]"
    by (simp add: isStrWhiteSpaceChar_def)
  have f: "formField (form ?s) Sig = [CHR 0x20, CHR 0x09]"
    by (simp add: initialState_def)
  have o: "\<forall>j. j \<noteq> Sig \<longrightarrow> withinDeclaredRange j (Number (formField (form ?s) j))"
  proof (intro allI impI)
    fix j :: FormKey
    assume "j \<noteq> Sig"
    then show "withinDeclaredRange j (Number (formField (form ?s) j))"
      by (cases j) (simp_all add: initialState_def Number_literals)
  qed
  from h f o whitespace_field_accepted [OF h, of Sig ?s] show ?thesis
    by simp
qed



end
